theory Spec2Isabelle
  imports Main
begin

section \<open>JavaScript strings and arrays\<close>

text \<open>
  Strings are character lists. The functions below are the string and array methods the
  sources call: \<^verbatim>\<open>startsWith\<close>, \<^verbatim>\<open>endsWith\<close>, \<^verbatim>\<open>split\<close> with a one-character
  separator, \<^verbatim>\<open>Array.join\<close>, \<^verbatim>\<open>trim\<close> and \<^verbatim>\<open>replace(/-/g, s)\<close>.
\<close>

definition startsWith :: "string \<Rightarrow> string \<Rightarrow> bool" where
  "startsWith s p = (take (length p) s = p)"

definition endsWith :: "string \<Rightarrow> string \<Rightarrow> bool" where
  "endsWith s p = (length p \<le> length s \<and> drop (length s - length p) s = p)"

text \<open>\<^verbatim>\<open>s.split(c)\<close>: every occurrence of the separator cuts; empty pieces are kept, and
  the result is never empty (\<^verbatim>\<open>''.split('/')\<close> is \<^verbatim>\<open>['']\<close>).\<close>

fun split_str :: "char \<Rightarrow> string \<Rightarrow> string list" where
  "split_str c [] = [[]]"
| "split_str c (x # xs) =
     (if x = c then [] # split_str c xs
      else (case split_str c xs of [] \<Rightarrow> [[x]] | w # ws \<Rightarrow> (x # w) # ws))"

text \<open>\<^verbatim>\<open>parts.join(sep)\<close>.\<close>

fun join_str :: "string \<Rightarrow> string list \<Rightarrow> string" where
  "join_str sep [] = []"
| "join_str sep [x] = x"
| "join_str sep (x # y # zs) = x @ sep @ join_str sep (y # zs)"

definition isSpace :: "char \<Rightarrow> bool" where
  "isSpace c = (c \<in> set [CHR '' '', CHR 0x09, CHR 0x0A, CHR 0x0B, CHR 0x0C, CHR 0x0D])"

definition trim :: "string \<Rightarrow> string" where
  "trim s = rev (dropWhile isSpace (rev (dropWhile isSpace s)))"

text \<open>\<^verbatim>\<open>s.replace(/-/g, r)\<close>.\<close>

definition replace_dashes :: "string \<Rightarrow> string \<Rightarrow> string" where
  "replace_dashes s r = concat (map (\<lambda>c. if c = CHR ''-'' then r else [c]) s)"

text \<open>A JavaScript \<^verbatim>\<open>Set<string>\<close> keeps insertion order and ignores a value it already
  holds; \<^verbatim>\<open>Array.from(set)\<close> lists it in that order.\<close>

definition Set_add :: "string \<Rightarrow> string list \<Rightarrow> string list" where
  "Set_add x s = (if x \<in> set s then s else s @ [x])"

section \<open>Node's \<^verbatim>\<open>path\<close> module (POSIX)\<close>

text \<open>
  \<^verbatim>\<open>path.sep\<close> is the slash. \<^verbatim>\<open>normalizeString\<close> walks the segments of a path: empty
  segments and \<^verbatim>\<open>.\<close> are dropped, \<^verbatim>\<open>..\<close> removes the segment before it, and is kept
  (when the path is relative) or dropped (when it is absolute) where there is none.
\<close>

definition sep :: char where
  "sep = CHR ''/''"

fun normalizeString :: "bool \<Rightarrow> string list \<Rightarrow> string list \<Rightarrow> string list" where
  "normalizeString allowAboveRoot res [] = res"
| "normalizeString allowAboveRoot res (s # ss) =
     (if s = [] \<or> s = ''.'' then normalizeString allowAboveRoot res ss
      else if s = ''..'' then
        (if res \<noteq> [] \<and> last res \<noteq> ''..'' then normalizeString allowAboveRoot (butlast res) ss
         else if allowAboveRoot then normalizeString allowAboveRoot (res @ [''..'']) ss
         else normalizeString allowAboveRoot res ss)
      else normalizeString allowAboveRoot (res @ [s]) ss)"

definition isAbsolute :: "string \<Rightarrow> bool" where
  "isAbsolute p = (p \<noteq> [] \<and> hd p = sep)"

definition normalize :: "string \<Rightarrow> string" where
  "normalize p =
     (if p = [] then ''.''
      else
        let trailingSeparator = (last p = sep);
            q = join_str [sep] (normalizeString (\<not> isAbsolute p) [] (split_str sep p))
        in if q = [] then (if isAbsolute p then [sep] else if trailingSeparator then ''./'' else ''.'')
           else (if isAbsolute p then [sep] else []) @ q @ (if trailingSeparator then [sep] else []))"

definition join :: "string list \<Rightarrow> string" where
  "join args =
     (let joined = join_str [sep] (filter (\<lambda>a. a \<noteq> []) args)
      in if joined = [] then ''.'' else normalize joined)"

record ParsedPath =
  root :: string
  dir :: string
  base :: string
  ext :: string
  name :: string

text \<open>
  \<^verbatim>\<open>path.parse\<close>: trailing slashes are ignored, \<^verbatim>\<open>base\<close> is the last segment, \<^verbatim>\<open>dir\<close>
  is what stands before the slash in front of it. The extension starts at the last dot of
  \<^verbatim>\<open>base\<close>, unless that dot is its first character or \<^verbatim>\<open>base\<close> is \<^verbatim>\<open>..\<close>.
\<close>

definition splitExt :: "string \<Rightarrow> string \<times> string" where
  "splitExt b =
     (let afterDot = takeWhile (\<lambda>c. c \<noteq> CHR ''.'') (rev b);
          startDot = length b - length afterDot - 1
      in if CHR ''.'' \<notin> set b \<or> startDot = 0 \<or> b = ''..'' then (b, [])
         else (take startDot b, drop startDot b))"

definition parse :: "string \<Rightarrow> ParsedPath" where
  "parse p =
     (let r = (if isAbsolute p then [sep] else []);
          body = (if isAbsolute p then tl p else p);
          trimmed = rev (dropWhile (\<lambda>c. c = sep) (rev body));
          b = rev (takeWhile (\<lambda>c. c \<noteq> sep) (rev trimmed));
          d = (if sep \<in> set trimmed then r @ take (length trimmed - length b - 1) trimmed else r)
      in \<lparr> root = r, dir = d, base = b, ext = snd (splitExt b), name = fst (splitExt b) \<rparr>)"

text \<open>An ordinary path segment: a name, neither empty nor \<^verbatim>\<open>.\<close> nor \<^verbatim>\<open>..\<close>.\<close>

definition plainSegment :: "string \<Rightarrow> bool" where
  "plainSegment s = (s \<noteq> [] \<and> s \<noteq> ''.'' \<and> s \<noteq> ''..'')"

section \<open>Labels\<close>

text \<open>
  Modelled from the spec: the class \<^verbatim>\<open>Label\<close> (\<^verbatim>\<open>./label\<close>), of which the sources only
  call \<^verbatim>\<open>Label.parseAbsolute\<close> and \<^verbatim>\<open>toString\<close>. A label has a repository qualifier (empty
  for the current workspace), a package path and a target that defaults to the last
  package segment; the canonical form is \<^verbatim>\<open>@repo//package:target\<close>, with the repository
  left out when empty and the target left out when it is the last package segment.
\<close>

record Label =
  repository :: string
  package :: string
  target :: string

fun beforeRoot :: "string \<Rightarrow> string \<times> string" where
  "beforeRoot [] = ([], [])"
| "beforeRoot (c # cs) =
     (if startsWith (c # cs) ''//'' then ([], drop 2 (c # cs))
      else (case beforeRoot cs of (a, b) \<Rightarrow> (c # a, b)))"

definition lastSegment :: "string \<Rightarrow> string" where
  "lastSegment pkg = last (split_str sep pkg)"

definition Label_parseAbsolute :: "string \<Rightarrow> Label" where
  "Label_parseAbsolute s =
     (case beforeRoot s of
        (r, rest) \<Rightarrow>
          let pkg = takeWhile (\<lambda>c. c \<noteq> CHR '':'') rest
          in \<lparr> repository = (if startsWith r ''@'' then tl r else r),
               package = pkg,
               target = (if CHR '':'' \<in> set rest then tl (dropWhile (\<lambda>c. c \<noteq> CHR '':'') rest)
                         else lastSegment pkg) \<rparr>)"

definition Label_toString :: "Label \<Rightarrow> string" where
  "Label_toString l =
     (if repository l = [] then [] else ''@'' @ repository l) @ ''//'' @ package l @
     (if target l = lastSegment (package l) then [] else '':'' @ target l)"

section \<open>The file system, the flags and the outside world\<close>

text \<open>
  A file system maps a path to what \<^verbatim>\<open>lstatSync\<close> finds there: a regular file with its
  text, or a directory with the names \<^verbatim>\<open>readdirSync\<close> lists (links and devices are left
  out). The calls of \<^verbatim>\<open>fs\<close> throw where nothing is found; the exception is a value of
  \<open>error\<close>.
\<close>

datatype Stats = File string | Directory "string list"

type_synonym filesystem = "string \<Rightarrow> Stats option"

datatype error =
    ENOENT string
  | ENOTDIR string
  | EISDIR string
  | TypeError
  | Error string
  | Fatal string

fun isFile_stats :: "Stats \<Rightarrow> bool" where
  "isFile_stats (File _) = True"
| "isFile_stats (Directory _) = False"

fun isDirectory_stats :: "Stats \<Rightarrow> bool" where
  "isDirectory_stats (File _) = False"
| "isDirectory_stats (Directory _) = True"

definition lstatSync :: "filesystem \<Rightarrow> string \<Rightarrow> error + Stats" where
  "lstatSync f p = (case f p of None \<Rightarrow> Inl (ENOENT p) | Some s \<Rightarrow> Inr s)"

definition readdirSync :: "filesystem \<Rightarrow> string \<Rightarrow> error + string list" where
  "readdirSync f p =
     (case f p of
        None \<Rightarrow> Inl (ENOENT p)
      | Some (File _) \<Rightarrow> Inl (ENOTDIR p)
      | Some (Directory es) \<Rightarrow> Inr es)"

definition readFileSync :: "filesystem \<Rightarrow> string \<Rightarrow> error + string" where
  "readFileSync f p =
     (case f p of
        None \<Rightarrow> Inl (ENOENT p)
      | Some (Directory _) \<Rightarrow> Inl (EISDIR p)
      | Some (File c) \<Rightarrow> Inr c)"

definition writeFileSync :: "filesystem \<Rightarrow> string \<Rightarrow> string \<Rightarrow> error + filesystem" where
  "writeFileSync f p content =
     (case f p of
        Some (Directory _) \<Rightarrow> Inl (EISDIR p)
      | _ \<Rightarrow>
         (case f (dir (parse p)) of
            None \<Rightarrow> Inl (ENOENT p)
          | Some (File _) \<Rightarrow> Inl (ENOTDIR p)
          | Some (Directory es) \<Rightarrow>
              Inr (f(dir (parse p) \<mapsto> Directory (Set_add (base (parse p)) es),
                     p \<mapsto> File content))))"

text \<open>\<^verbatim>\<open>shell.rm\<close> and \<^verbatim>\<open>shell.touch\<close> of shelljs report a failure on the console and do
  not throw: \<^verbatim>\<open>rm\<close> removes a regular file and leaves anything else, \<^verbatim>\<open>touch\<close> creates an
  empty file where there is none.\<close>

definition shell_rm :: "filesystem \<Rightarrow> string \<Rightarrow> filesystem" where
  "shell_rm f p =
     (case f p of
        Some (File _) \<Rightarrow>
          (case f (dir (parse p)) of
             Some (Directory es) \<Rightarrow>
               f(dir (parse p) \<mapsto> Directory (filter (\<lambda>e. e \<noteq> base (parse p)) es), p := None)
           | _ \<Rightarrow> f(p := None))
      | _ \<Rightarrow> f)"

definition shell_touch :: "filesystem \<Rightarrow> string \<Rightarrow> filesystem" where
  "shell_touch f p =
     (case f p of
        Some _ \<Rightarrow> f
      | None \<Rightarrow> (case writeFileSync f p [] of Inl _ \<Rightarrow> f | Inr g \<Rightarrow> g))"

text \<open>The flags the modelled code reads (\<^verbatim>\<open>flags.ts\<close>; \<^verbatim>\<open>npm_workspace_name\<close> and
  \<^verbatim>\<open>ts_config_label\<close> are flags of the TypeScript generator). A flag that may be
  \<^verbatim>\<open>null\<close> is an option.\<close>

record Flags =
  path :: string
  base_dir :: string
  suffix_separator :: string
  label_mapping :: "string \<rightharpoonup> string"
  use_bazel_query :: bool
  ignore_spec_files :: bool
  verbose_import_mappings :: bool
  debug :: bool
  npm_workspace_name :: string
  ts_config_label :: "string option"
  default_visibility :: "string option"
  build_file_name :: string
  buildozer_commands_file :: string
  clean_commands_file :: bool
  generate_build_files :: bool
  nuke_build_file :: bool
  output_buildozer_to_console :: bool
  bzl_binary :: string
  buildozer_binary :: string


text \<open>
  What \<^verbatim>\<open>tsquery\<close> finds in a parsed file: the text of the module specifier (quotes
  included) of every import declaration, and of every export declaration, that has a
  string literal, in the order of the file.
\<close>

record SourceFile =
  importDeclarations :: "string list"
  exportDeclarations :: "string list"

text \<open>
  The outside world: the file system and the collaborators whose code is not part of the
  repository. \<open>kebabCase\<close> is lodash's function, \<open>tsquery_ast\<close> the TypeScript parser,
  \<open>exec_query\<close> the build system's query binary (command line and working directory to
  exit code and standard output; it is taken not to alter the source tree) and
  \<open>exec_editor\<close> the build-graph editor, which rewrites files and returns an exit code.
\<close>

record host =
  fs :: filesystem
  kebabCase :: "string \<Rightarrow> string"
  tsquery_ast :: "string \<Rightarrow> SourceFile"
  exec_query :: "string \<Rightarrow> string \<Rightarrow> int \<times> string"
  exec_editor :: "string \<Rightarrow> string \<Rightarrow> filesystem \<Rightarrow> int \<times> filesystem"

text \<open>What the run leaves behind besides files: lines on the console and the
  subprocesses it started (command line, working directory). Output of \<^verbatim>\<open>debug\<close>
  is not modelled.\<close>

datatype event = Log string | Warn string | Exec string string

text \<open>The mutable part of a \<^verbatim>\<open>Workspace\<close>: the cache of query results, with the
  events so far.\<close>

record state =
  fileQueryResultCache :: "string \<rightharpoonup> Label"
  trace :: "event list"

section \<open>\<^verbatim>\<open>Workspace\<close>: paths\<close>

definition getAbsolutePath :: "Flags \<Rightarrow> string" where
  "getAbsolutePath fl = join [base_dir fl, path fl]"

definition isDirectory :: "host \<Rightarrow> Flags \<Rightarrow> error + bool" where
  "isDirectory h fl =
     (case lstatSync (fs h) (getAbsolutePath fl) of
        Inl e \<Rightarrow> Inl e
      | Inr s \<Rightarrow> Inr (isDirectory_stats s))"

definition isFile :: "host \<Rightarrow> Flags \<Rightarrow> error + bool" where
  "isFile h fl =
     (case lstatSync (fs h) (getAbsolutePath fl) of
        Inl e \<Rightarrow> Inl e
      | Inr s \<Rightarrow> Inr (isFile_stats s))"

definition getPathFromBaseDir :: "Flags \<Rightarrow> string" where
  "getPathFromBaseDir fl = normalize (path fl)"

definition getPathAsDirectory :: "host \<Rightarrow> Flags \<Rightarrow> error + string" where
  "getPathAsDirectory h fl =
     (case isFile h fl of
        Inl e \<Rightarrow> Inl e
      | Inr True \<Rightarrow> Inr (dir (parse (getPathFromBaseDir fl)))
      | Inr False \<Rightarrow> Inr (getPathFromBaseDir fl))"

text \<open>
  \<^verbatim>\<open>isWorkspaceRelative\<close> reads the listing of \<^verbatim>\<open>base_dir\<close> once and keeps it. The file
  system of the model does not change while labels are resolved, so the kept listing is
  the listing read here.
\<close>

definition isWorkspaceRelative :: "host \<Rightarrow> Flags \<Rightarrow> string \<Rightarrow> error + bool" where
  "isWorkspaceRelative h fl p =
     (case readdirSync (fs h) (base_dir fl) of
        Inl e \<Rightarrow> Inl e
      | Inr listing \<Rightarrow>
          (case split_str sep (normalize p) of
             [] \<Rightarrow> Inr False
           | firstSegment # _ \<Rightarrow> Inr (firstSegment \<in> set listing)))"

definition resolveRelativeToWorkspace :: "host \<Rightarrow> Flags \<Rightarrow> string \<Rightarrow> error + string" where
  "resolveRelativeToWorkspace h fl p =
     (case isWorkspaceRelative h fl p of
        Inl e \<Rightarrow> Inl e
      | Inr True \<Rightarrow> Inr p
      | Inr False \<Rightarrow>
          (case getPathAsDirectory h fl of
             Inl e \<Rightarrow> Inl e
           | Inr d \<Rightarrow> Inr (join [d, p])))"

text \<open>
  \<^verbatim>\<open>resolveAbsolute\<close> calls itself on the path \<^verbatim>\<open>resolveRelativeToWorkspace\<close> returns,
  with no bound of its own: the result is \<open>None\<close> where the recursion does not end.
\<close>

partial_function (option) resolveAbsolute :: "host \<Rightarrow> Flags \<Rightarrow> string \<Rightarrow> (error + string) option" where
  "resolveAbsolute h fl p =
     (if isAbsolute p then Some (Inr p)
      else
        (case isWorkspaceRelative h fl p of
           Inl e \<Rightarrow> Some (Inl e)
         | Inr rel \<Rightarrow>
             if rel then Some (Inr (join [base_dir fl, p]))
             else
               (case resolveRelativeToWorkspace h fl p of
                  Inl e \<Rightarrow> Some (Inl e)
                | Inr q \<Rightarrow> resolveAbsolute h fl q)))"

declare resolveAbsolute.simps [code]

section \<open>\<^verbatim>\<open>Workspace\<close>: labels\<close>

text \<open>
  \<^verbatim>\<open>tryResolveLabelFromStaticMapping(imp, defaultValue?, relativePrefix?)\<close>: the key is
  the import itself, or its workspace-relative form when it starts with the prefix.
\<close>

definition tryResolveLabelFromStaticMapping ::
    "host \<Rightarrow> Flags \<Rightarrow> string \<Rightarrow> string option \<Rightarrow> string option \<Rightarrow> error + Label option" where
  "tryResolveLabelFromStaticMapping h fl imp defaultValue relativePrefix =
     (case (case relativePrefix of
              None \<Rightarrow> Inr imp
            | Some pre \<Rightarrow>
                if pre \<noteq> [] \<and> startsWith imp pre then resolveRelativeToWorkspace h fl imp
                else Inr imp) of
        Inl e \<Rightarrow> Inl e
      | Inr k \<Rightarrow>
          (case label_mapping fl k of
             None \<Rightarrow>
               (case defaultValue of
                  None \<Rightarrow> Inr None
                | Some d \<Rightarrow> if d \<noteq> [] then Inr (Some (Label_parseAbsolute d)) else Inr None)
           | Some l \<Rightarrow> Inr (Some (Label_parseAbsolute l))))"

text \<open>
  \<^verbatim>\<open>getLabelFor(path, target?)\<close>. The result is \<open>None\<close> where \<^verbatim>\<open>resolveAbsolute\<close> does
  not return.
\<close>

definition getLabelFor :: "host \<Rightarrow> Flags \<Rightarrow> string \<Rightarrow> string option \<Rightarrow> (error + Label) option" where
  "getLabelFor h fl p tgt =
     (case resolveRelativeToWorkspace h fl p of
        Inl e \<Rightarrow> Some (Inl e)
      | Inr q \<Rightarrow>
          (case tryResolveLabelFromStaticMapping h fl q None None of
             Inl e \<Rightarrow> Some (Inl e)
           | Inr (Some staticLabel) \<Rightarrow> Some (Inr staticLabel)
           | Inr None \<Rightarrow>
               (case resolveAbsolute h fl q of
                  None \<Rightarrow> None
                | Some (Inl e) \<Rightarrow> Some (Inl e)
                | Some (Inr a) \<Rightarrow>
                    (case lstatSync (fs h) a of
                       Inl e \<Rightarrow> Some (Inl e)
                     | Inr stats \<Rightarrow>
                         let l = (if isFile_stats stats then dir (parse q) else q);
                             l' = (case tgt of
                                     None \<Rightarrow> l
                                   | Some t \<Rightarrow> if t \<noteq> [] then l @ '':'' @ t else l)
                         in Some (Inr (Label_parseAbsolute (''//'' @ l')))))))"


text \<open>\<^verbatim>\<open>queryForFile\<close>: the cache first, then the query binary, run from \<^verbatim>\<open>base_dir\<close>.\<close>

definition queryCommand :: "Flags \<Rightarrow> string \<Rightarrow> string" where
  "queryCommand fl file =
     (let parts = split_str CHR ''/'' file;
          l = ''//'' @ join_str ''/'' (butlast parts) @ '':'' @ last parts;
          term1 = [CHR 0x22] @ ''attr('' @ [CHR 0x27] @ ''src'' @ [CHR 0x27] @ '', '' @ l @ '', //...)'' @ [CHR 0x22];
          term2 = [CHR 0x22] @ ''attr('' @ [CHR 0x27] @ ''srcs'' @ [CHR 0x27] @ '', '' @ l @ '', //...)'' @ [CHR 0x22]
      in bzl_binary fl @ '' query --output label --order_output=no '' @ term1 @ '' + '' @ term2)"

definition queryForFile :: "host \<Rightarrow> Flags \<Rightarrow> state \<Rightarrow> string \<Rightarrow> Label option \<times> state" where
  "queryForFile h fl st file =
     (case fileQueryResultCache st file of
        Some l \<Rightarrow> (Some l, st)
      | None \<Rightarrow>
          (case exec_query h (queryCommand fl file) (base_dir fl) of
             (code, out) \<Rightarrow>
               let st1 = st\<lparr> trace := trace st @ [Exec (queryCommand fl file) (base_dir fl)] \<rparr>
               in if code = 0 \<and> trim out \<noteq> [] then
                    (Some (Label_parseAbsolute (trim out)),
                     st1\<lparr> fileQueryResultCache :=
                            (fileQueryResultCache st1)(file \<mapsto> Label_parseAbsolute (trim out)) \<rparr>)
                  else (None, st1)))"

text \<open>
  \<^verbatim>\<open>getLabelForFile(path, suffix?, stripFileExt = true)\<close>: static mapping, query (when
  enabled), then the guess from the file name. The separator replaces the dashes of the
  kebab-cased name (for a separator without \<^verbatim>\<open>$\<close>, which \<^verbatim>\<open>replace\<close> would expand).
\<close>

definition getLabelForFile ::
    "host \<Rightarrow> Flags \<Rightarrow> state \<Rightarrow> string \<Rightarrow> string option \<Rightarrow> bool \<Rightarrow> ((error + Label) \<times> state) option" where
  "getLabelForFile h fl st p suffix stripFileExt =
     (case resolveRelativeToWorkspace h fl p of
        Inl e \<Rightarrow> Some (Inl e, st)
      | Inr q \<Rightarrow>
          (case tryResolveLabelFromStaticMapping h fl q None None of
             Inl e \<Rightarrow> Some (Inl e, st)
           | Inr (Some staticLabel) \<Rightarrow> Some (Inr staticLabel, st)
           | Inr None \<Rightarrow>
               (case (if use_bazel_query fl then queryForFile h fl st q else (None, st)) of
                  (Some queryLabel, st1) \<Rightarrow> Some (Inr queryLabel, st1)
                | (None, st1) \<Rightarrow>
                    let parsed = parse q;
                        snake = kebabCase h (if stripFileExt then name parsed else base parsed);
                        snake1 = (if suffix_separator fl \<noteq> ''-''
                                  then replace_dashes snake (suffix_separator fl) else snake);
                        snake2 = (case suffix of
                                    None \<Rightarrow> snake1
                                  | Some sfx \<Rightarrow>
                                      if sfx \<noteq> [] then snake1 @ suffix_separator fl @ sfx
                                      else snake1)
                    in (case getLabelFor h fl (dir parsed) (Some snake2) of
                          None \<Rightarrow> None
                        | Some r \<Rightarrow> Some (r, st1)))))"

section \<open>\<^verbatim>\<open>TsGenerator\<close>\<close>

text \<open>
  \<^verbatim>\<open>calculateTsDependencyLabel\<close>. A \<^verbatim>\<open>Label\<close> object is always truthy, so the
  \<^verbatim>\<open>throw\<close> after \<^verbatim>\<open>getLabelForFile\<close> is never reached: what \<^verbatim>\<open>getLabelForFile\<close> returns
  or throws is the result. Module specifiers are split and joined with \<^verbatim>\<open>path.posix\<close>.
\<close>

definition calculateTsDependencyLabel ::
    "host \<Rightarrow> Flags \<Rightarrow> state \<Rightarrow> string \<Rightarrow> string \<Rightarrow> ((error + Label) \<times> state) option" where
  "calculateTsDependencyLabel h fl st imp npmWorkspace =
     (case tryResolveLabelFromStaticMapping h fl imp None (Some ''.'') of
        Inl e \<Rightarrow> Some (Inl e, st)
      | Inr (Some l) \<Rightarrow> Some (Inr l, st)
      | Inr None \<Rightarrow>
          (case isWorkspaceRelative h fl imp of
             Inl e \<Rightarrow> Some (Inl e, st)
           | Inr rel \<Rightarrow>
               if rel \<or> startsWith imp ''.'' then getLabelForFile h fl st (imp @ ''.ts'') None True
               else
                 let pathParts = split_str sep imp;
                     reducedPathed = (if startsWith imp ''@'' then join (take 2 pathParts)
                                      else join (take 1 pathParts))
                 in Some (Inr (Label_parseAbsolute (''@'' @ npmWorkspace @ ''//'' @ reducedPathed)), st)))"

text \<open>\<^verbatim>\<open>moduleSpecifier.getText().split(`'`)[1]\<close>: \<^verbatim>\<open>undefined\<close> when the text has no
  single quote.\<close>

definition moduleSpecifierText :: "string \<Rightarrow> string option" where
  "moduleSpecifierText raw = (case split_str (CHR 0x27) raw of _ # t # _ \<Rightarrow> Some t | _ \<Rightarrow> None)"

definition withTs :: "string \<Rightarrow> string" where
  "withTs w = (if endsWith w ''.ts'' then w else w @ ''.ts'')"

text \<open>
  \<^verbatim>\<open>resolveLabelFromModuleSpecifier\<close>: \<open>Inr None\<close> is the early \<^verbatim>\<open>return\<close> for an import
  of a file of the rule itself. With an \<^verbatim>\<open>undefined\<close> text, \<^verbatim>\<open>isWorkspaceRelative\<close> reads
  the listing and \<^verbatim>\<open>normalize\<close> throws a \<^verbatim>\<open>TypeError\<close>.
\<close>

definition resolveLabelFromModuleSpecifier ::
    "host \<Rightarrow> Flags \<Rightarrow> state \<Rightarrow> string \<Rightarrow> string list \<Rightarrow> string \<Rightarrow> ((error + Label option) \<times> state) option" where
  "resolveLabelFromModuleSpecifier h fl st moduleSpecifier tsFiles npmWorkspace =
     (case moduleSpecifierText moduleSpecifier of
        None \<Rightarrow>
          (case readdirSync (fs h) (base_dir fl) of
             Inl e \<Rightarrow> Some (Inl e, st)
           | Inr _ \<Rightarrow> Some (Inl TypeError, st))
      | Some t \<Rightarrow>
          (case resolveRelativeToWorkspace h fl t of
             Inl e \<Rightarrow> Some (Inl e, st)
           | Inr workspaceRelativeImport \<Rightarrow>
               if withTs workspaceRelativeImport \<in> set tsFiles then Some (Inr None, st)
               else
                 (case calculateTsDependencyLabel h fl st t npmWorkspace of
                    None \<Rightarrow> None
                  | Some (Inl e, st1) \<Rightarrow> Some (Inl e, st1)
                  | Some (Inr l, st1) \<Rightarrow>
                      Some (Inr (Some l),
                            if verbose_import_mappings fl
                            then st1\<lparr> trace := trace st1 @ [Log (t @ ''='' @ Label_toString l)] \<rparr>
                            else st1))))"

text \<open>The \<^verbatim>\<open>map\<close> over the declarations a query found: every specifier is resolved, in
  order, and the first exception ends it.\<close>

fun resolveAll ::
    "host \<Rightarrow> Flags \<Rightarrow> state \<Rightarrow> string list \<Rightarrow> string list \<Rightarrow> string \<Rightarrow> ((error + Label option list) \<times> state) option" where
  "resolveAll h fl st [] tsFiles npmWorkspace = Some (Inr [], st)"
| "resolveAll h fl st (m # ms) tsFiles npmWorkspace =
     (case resolveLabelFromModuleSpecifier h fl st m tsFiles npmWorkspace of
        None \<Rightarrow> None
      | Some (Inl e, st1) \<Rightarrow> Some (Inl e, st1)
      | Some (Inr l, st1) \<Rightarrow>
          (case resolveAll h fl st1 ms tsFiles npmWorkspace of
             None \<Rightarrow> None
           | Some (Inl e, st2) \<Rightarrow> Some (Inl e, st2)
           | Some (Inr ls, st2) \<Rightarrow> Some (Inr (l # ls), st2)))"

text \<open>\<^verbatim>\<open>.filter(label => !!label).forEach(label => labels.add(label.toString()))\<close>.\<close>

definition addLabels :: "Label option list \<Rightarrow> string list \<Rightarrow> string list" where
  "addLabels ls labels = fold (\<lambda>l acc. Set_add (Label_toString l) acc) (List.map_filter id ls) labels"

definition processTsFileAst ::
    "host \<Rightarrow> Flags \<Rightarrow> state \<Rightarrow> SourceFile \<Rightarrow> string list \<Rightarrow> string \<Rightarrow> string list \<Rightarrow>
     ((error + string list) \<times> state) option" where
  "processTsFileAst h fl st ast tsFiles npmWorkspace labels =
     (case resolveAll h fl st (importDeclarations ast) tsFiles npmWorkspace of
        None \<Rightarrow> None
      | Some (Inl e, st1) \<Rightarrow> Some (Inl e, st1)
      | Some (Inr imported, st1) \<Rightarrow>
          (case resolveAll h fl st1 (exportDeclarations ast) tsFiles npmWorkspace of
             None \<Rightarrow> None
           | Some (Inl e, st2) \<Rightarrow> Some (Inl e, st2)
           | Some (Inr exported, st2) \<Rightarrow>
               Some (Inr (addLabels exported (addLabels imported labels)), st2)))"









section \<open>\<^verbatim>\<open>flags.ts\<close>: the path argument\<close>


section \<open>\<^verbatim>\<open>Workspace.invokeBuildozer\<close>\<close>

fun string_of_nat :: "nat \<Rightarrow> string" where
  "string_of_nat n =
     (if n < 10 then [char_of (48 + n)]
      else string_of_nat (n div 10) @ [char_of (48 + n mod 10)])"

declare string_of_nat.simps [simp del]

definition getBuildFilePath :: "host \<Rightarrow> Flags \<Rightarrow> error + string" where
  "getBuildFilePath h fl =
     (case isDirectory h fl of
        Inl e \<Rightarrow> Inl e
      | Inr isDir \<Rightarrow>
          if isDir then Inr (join [getAbsolutePath fl, build_file_name fl])
          else Inr (join [getAbsolutePath fl, ''..'', build_file_name fl]))"

text \<open>\<^verbatim>\<open>hasBuildFileAtPath\<close> catches what \<^verbatim>\<open>lstatSync\<close> throws, and not what
  \<^verbatim>\<open>getBuildFilePath\<close> throws before the \<^verbatim>\<open>try\<close>.\<close>

definition hasBuildFileAtPath :: "host \<Rightarrow> Flags \<Rightarrow> error + bool" where
  "hasBuildFileAtPath h fl =
     (case getBuildFilePath h fl of
        Inl e \<Rightarrow> Inl e
      | Inr buildFilePath \<Rightarrow>
          (case lstatSync (fs h) buildFilePath of
             Inl _ \<Rightarrow> Inr False
           | Inr stats \<Rightarrow> Inr (isFile_stats stats)))"

text \<open>The build file is emptied (with \<^verbatim>\<open>nuke_build_file\<close>) or created before the editor
  runs. The result is the exception, if any, with the file system as it stands.\<close>

definition prepareBuildFile :: "host \<Rightarrow> Flags \<Rightarrow> error option \<times> filesystem" where
  "prepareBuildFile h fl =
     (case hasBuildFileAtPath h fl of
        Inl e \<Rightarrow> (Some e, fs h)
      | Inr has \<Rightarrow>
          if has \<and> nuke_build_file fl then
            (case getBuildFilePath h fl of
               Inl e \<Rightarrow> (Some e, fs h)
             | Inr bp \<Rightarrow>
                 (case getBuildFilePath (h\<lparr> fs := shell_rm (fs h) bp \<rparr>) fl of
                    Inl e \<Rightarrow> (Some e, shell_rm (fs h) bp)
                  | Inr bp2 \<Rightarrow> (None, shell_touch (shell_rm (fs h) bp) bp2)))
          else if \<not> has then
            (case getBuildFilePath h fl of
               Inl e \<Rightarrow> (Some e, fs h)
             | Inr bp \<Rightarrow> (None, shell_touch (fs h) bp))
          else (None, fs h))"

definition editorCommand :: "Flags \<Rightarrow> string \<Rightarrow> string" where
  "editorCommand fl buildozerCommandsFilePath =
     buildozer_binary fl @ '' -shorten_labels -eol-comments=true -k -f '' @ buildozerCommandsFilePath"

definition consoleOutput :: "Flags \<Rightarrow> string list \<Rightarrow> event list" where
  "consoleOutput fl commands =
     (if output_buildozer_to_console fl
      then [Log (''Generated '' @ string_of_nat (length commands) @ '' buildozer commands:''),
            Log ([CHR 0x0A] @ join_str [CHR 0x0A] commands),
            Log []]
      else [])"

text \<open>
  \<^verbatim>\<open>invokeBuildozer\<close>, on the commands \<^verbatim>\<open>this.buildozer.toCommands()\<close> returns. The result
  is the exception that ended it, if any, with the file system and the state it leaves.
\<close>

definition invokeBuildozer ::
    "host \<Rightarrow> Flags \<Rightarrow> string list \<Rightarrow> state \<Rightarrow> error option \<times> filesystem \<times> state" where
  "invokeBuildozer h fl commands st =
     (if buildozer_commands_file fl = [] then (None, fs h, st)
      else if commands = [] then
        (None, fs h, st\<lparr> trace := trace st @ [Warn ''No buildozer commands were generated''] \<rparr>)
      else
        let buildozerCommandsFilePath = join [base_dir fl, buildozer_commands_file fl]
        in (case writeFileSync (fs h) buildozerCommandsFilePath (join_str [CHR 0x0A] commands) of
              Inl e \<Rightarrow> (Some e, fs h, st)
            | Inr f1 \<Rightarrow>
                let st1 = st\<lparr> trace := trace st @ consoleOutput fl commands \<rparr>
                in if \<not> generate_build_files fl then
                     (None, f1,
                      st1\<lparr> trace := trace st1 @
                        [Log (''--no-generate_build_files set, not generating '' @ build_file_name fl @ '' files''),
                         Log (''buildozer commands file can be found at '' @ buildozerCommandsFilePath)] \<rparr>)
                   else
                     (case prepareBuildFile (h\<lparr> fs := f1 \<rparr>) fl of
                        (Some e, f2) \<Rightarrow> (Some e, f2, st1)
                      | (None, f2) \<Rightarrow>
                          (case exec_editor h (editorCommand fl buildozerCommandsFilePath) (base_dir fl) f2 of
                             (code, f3) \<Rightarrow>
                               let st2 = st1\<lparr> trace := trace st1 @
                                     [Exec (editorCommand fl buildozerCommandsFilePath) (base_dir fl)] \<rparr>
                               in if (code = 0 \<or> code = 3) \<and> clean_commands_file fl
                                  then (None, shell_rm f3 buildozerCommandsFilePath, st2)
                                  else (None, f3, st2)))))"

section \<open>An example workspace\<close>

text \<open>
  The workspace \<^verbatim>\<open>/ws\<close> with one package \<^verbatim>\<open>src/foo\<close>. \<^verbatim>\<open>a.ts\<close> imports its neighbour
  \<^verbatim>\<open>./b\<close>, the package \<^verbatim>\<open>lodash\<close> and a file \<^verbatim>\<open>./missing\<close> that does not exist; \<^verbatim>\<open>b.ts\<close>
  imports \<^verbatim>\<open>lodash\<close> too and re-exports \<^verbatim>\<open>./a\<close>; \<^verbatim>\<open>a.spec.ts\<close> imports \<^verbatim>\<open>./a\<close>.
\<close>

definition quoted :: "string \<Rightarrow> string" where
  "quoted s = [CHR 0x27] @ s @ [CHR 0x27]"

definition text_a :: string where
  "text_a = ''import '' @ quoted ''./b'' @ ''; import '' @ quoted ''lodash'' @
            ''; import '' @ quoted ''./missing'' @ '';''"

definition text_b :: string where
  "text_b = ''import '' @ quoted ''lodash'' @ ''; export * from '' @ quoted ''./a'' @ '';''"

definition text_spec :: string where
  "text_spec = ''import '' @ quoted ''./a'' @ '';''"

definition example_fs :: filesystem where
  "example_fs = map_of
     [(''/ws'', Directory [''BUILD'', ''WORKSPACE'', ''src'']),
      (''/ws/BUILD'', File []),
      (''/ws/WORKSPACE'', File []),
      (''/ws/src'', Directory [''foo'']),
      (''/ws/src/foo'', Directory [''a.spec.ts'', ''a.ts'', ''b.ts'']),
      (''/ws/src/foo/a.spec.ts'', File text_spec),
      (''/ws/src/foo/a.ts'', File text_a),
      (''/ws/src/foo/b.ts'', File text_b)]"

text \<open>What \<^verbatim>\<open>tsquery\<close> finds in the three files of the example.\<close>

definition example_tsquery :: "string \<Rightarrow> SourceFile" where
  "example_tsquery content =
     (if content = text_a then
        \<lparr> importDeclarations = [quoted ''./b'', quoted ''lodash'', quoted ''./missing''],
          exportDeclarations = [] \<rparr>
      else if content = text_b then
        \<lparr> importDeclarations = [quoted ''lodash''], exportDeclarations = [quoted ''./a''] \<rparr>
      else if content = text_spec then
        \<lparr> importDeclarations = [quoted ''./a''], exportDeclarations = [] \<rparr>
      else \<lparr> importDeclarations = [], exportDeclarations = [] \<rparr>)"

text \<open>
  The example's world: lodash's \<^verbatim>\<open>kebabCase\<close> leaves a lower-case word as it is, and the
  files of the example are named so; no build system answers queries; the editor leaves
  the files alone and exits with the given code.
\<close>

definition example_host :: "int \<Rightarrow> host" where
  "example_host code =
     \<lparr> fs = example_fs,
       kebabCase = (\<lambda>s. s),
       tsquery_ast = example_tsquery,
       exec_query = (\<lambda>cmd cwd. (1, [])),
       exec_editor = (\<lambda>cmd cwd f. (code, f)) \<rparr>"

definition example_flags :: Flags where
  "example_flags =
     \<lparr> path = ''src/foo'',
       base_dir = ''/ws'',
       suffix_separator = ''-'',
       label_mapping = map_of [(''src/foo/mapped'', ''//lib/mapped:target'')],
       use_bazel_query = False,
       ignore_spec_files = True,
       verbose_import_mappings = False,
       debug = False,
       npm_workspace_name = ''npm'',
       ts_config_label = None,
       default_visibility = None,
       build_file_name = ''BUILD'',
       buildozer_commands_file = ''commands.txt'',
       clean_commands_file = True,
       generate_build_files = True,
       nuke_build_file = False,
       output_buildozer_to_console = False,
       bzl_binary = ''bazel'',
       buildozer_binary = ''buildozer'' \<rparr>"

definition example_state :: state where
  "example_state = \<lparr> fileQueryResultCache = Map.empty, trace = [] \<rparr>"

section \<open>Evaluation on the example\<close>

lemmas string_defs = startsWith_def endsWith_def trim_def isSpace_def replace_dashes_def Set_add_def
lemmas path_defs = sep_def isAbsolute_def normalize_def join_def parse_def splitExt_def
lemmas fs_defs = lstatSync_def readdirSync_def readFileSync_def writeFileSync_def shell_rm_def
  shell_touch_def
lemmas example_defs = example_host_def example_flags_def example_state_def example_fs_def
  example_tsquery_def text_a_def text_b_def text_spec_def quoted_def
lemmas workspace_defs = getAbsolutePath_def isDirectory_def isFile_def getPathFromBaseDir_def
  getPathAsDirectory_def isWorkspaceRelative_def resolveRelativeToWorkspace_def
lemmas buildozer_defs = invokeBuildozer_def prepareBuildFile_def hasBuildFileAtPath_def
  getBuildFilePath_def editorCommand_def consoleOutput_def


section \<open>Splitting and joining\<close>

lemma split_str_nonempty: "split_str c s \<noteq> []"
  by (induction s) (auto split: list.splits)

lemma split_str_no_sep: "c \<notin> set s \<Longrightarrow> split_str c s = [s]"
  by (induction s) auto

lemma split_str_append: "c \<notin> set x \<Longrightarrow> split_str c (x @ c # r) = x # split_str c r"
  by (induction x) auto

lemma split_str_join_str:
  "ss \<noteq> [] \<Longrightarrow> \<forall>s\<in>set ss. c \<notin> set s \<Longrightarrow> split_str c (join_str [c] ss) = ss"
proof (induction "[c]" ss rule: join_str.induct)
  case 1
  then show ?case by simp
next
  case (2 x)
  then show ?case by (simp add: split_str_no_sep)
next
  case (3 x y zs)
  then show ?case by (simp add: split_str_append)
qed

lemma split_str_segments: "s \<in> set (split_str c p) \<Longrightarrow> c \<notin> set s"
proof (induction p arbitrary: s)
  case Nil
  then show ?case by simp
next
  case (Cons x xs)
  then show ?case
    by (cases "split_str c xs") (auto split: if_splits)
qed

lemma normalizeString_plain:
  "list_all plainSegment ss \<Longrightarrow> normalizeString a res ss = res @ ss"
  by (induction ss arbitrary: res) (auto simp: plainSegment_def)

lemma join_str_Nil_iff: "join_str [c] ss = [] \<longleftrightarrow> (\<forall>s\<in>set ss. s = []) \<and> length ss \<le> 1"
  by (induction "[c]" ss rule: join_str.induct) auto

lemma hd_join_str: "ss \<noteq> [] \<Longrightarrow> hd ss \<noteq> [] \<Longrightarrow> hd (join_str d ss) = hd (hd ss)"
  by (induction d ss rule: join_str.induct) auto

lemma join_str_nonempty: "ss \<noteq> [] \<Longrightarrow> last ss \<noteq> [] \<Longrightarrow> join_str d ss \<noteq> []"
  by (induction d ss rule: join_str.induct) auto

lemma last_join_str: "ss \<noteq> [] \<Longrightarrow> last ss \<noteq> [] \<Longrightarrow> last (join_str d ss) = last (last ss)"
proof (induction d ss rule: join_str.induct)
  case (3 d x y zs)
  then have "join_str d (y # zs) \<noteq> []" using join_str_nonempty [of "y # zs" d] by simp
  with 3 show ?case by simp
qed auto

text \<open>\<^verbatim>\<open>path.join\<close> of ordinary segments puts slashes between them and changes nothing
  else.\<close>

lemma join_plain:
  assumes "ss \<noteq> []" and "list_all plainSegment ss" and "\<forall>s\<in>set ss. sep \<notin> set s"
  shows "join ss = join_str [sep] ss"
proof -
  have ne: "\<forall>s\<in>set ss. s \<noteq> []"
    using assms(2) by (auto simp: list_all_iff plainSegment_def)
  then have f: "filter (\<lambda>a. a \<noteq> []) ss = ss" by simp
  have hdne: "hd ss \<noteq> []" and lastne: "last ss \<noteq> []"
    using ne assms(1) by auto
  let ?p = "join_str [sep] ss"
  have pne: "?p \<noteq> []"
    using assms(1) ne by (cases ss) (auto simp: join_str_Nil_iff)
  have "hd ?p = hd (hd ss)" using hd_join_str [OF assms(1) hdne] .
  moreover have "hd (hd ss) \<in> set (hd ss)" using hdne by simp
  moreover have "sep \<notin> set (hd ss)" using assms(1,3) by simp
  ultimately have nabs: "\<not> isAbsolute ?p" by (auto simp: isAbsolute_def)
  have "last ?p = last (last ss)" using last_join_str [OF assms(1) lastne] .
  moreover have "last (last ss) \<in> set (last ss)" using lastne by simp
  moreover have "sep \<notin> set (last ss)" using assms(1,3) by simp
  ultimately have ntrail: "last ?p \<noteq> sep" by auto
  have sp: "split_str sep ?p = ss" using split_str_join_str [OF assms(1,3)] .
  have "normalize ?p = ?p"
    using pne nabs ntrail sp normalizeString_plain [OF assms(2), of True "[]"]
    by (simp add: normalize_def Let_def)
  then show ?thesis using pne f by (simp add: join_def Let_def)
qed








section \<open>The set of labels\<close>







lemma map_filter_skip_None: "List.map_filter id (as @ None # bs) = List.map_filter id (as @ bs)"
  by (simp add: List.map_filter_def)

lemma addLabels_skip: "addLabels (take k ls @ None # drop k ls) labels = addLabels ls labels"
  unfolding addLabels_def map_filter_skip_None append_take_drop_id ..






section \<open>Specifiers that resolve to nothing\<close>

text \<open>A specifier on which \<^verbatim>\<open>resolveLabelFromModuleSpecifier\<close> returns \<^verbatim>\<open>undefined\<close> at once
  can be taken out of the list \<^verbatim>\<open>map\<close> runs over: the results of the others and the state
  are the same.\<close>

lemma resolveAll_skip:
  assumes "\<And>s. resolveLabelFromModuleSpecifier h fl s m T n = Some (Inr None, s)"
  shows "resolveAll h fl st (xs @ m # ys) T n =
     (case resolveAll h fl st (xs @ ys) T n of
        None \<Rightarrow> None
      | Some (Inl e, s) \<Rightarrow> Some (Inl e, s)
      | Some (Inr ls, s) \<Rightarrow> Some (Inr (take (length xs) ls @ None # drop (length xs) ls), s))"
proof (induction xs arbitrary: st)
  case Nil
  show ?case by (simp add: assms split: option.splits sum.splits prod.splits)
next
  case (Cons x xs)
  show ?case
    by (simp add: Cons.IH split: option.splits sum.splits prod.splits)
qed

lemma self_import_early_return:
  assumes "moduleSpecifierText m = Some t" and "resolveRelativeToWorkspace h fl t = Inr w"
    and "withTs w \<in> set tsFiles"
  shows "resolveLabelFromModuleSpecifier h fl st m tsFiles npmWorkspace = Some (Inr None, st)"
  using assms by (simp add: resolveLabelFromModuleSpecifier_def)


section \<open>A recursion that does not end\<close>

text \<open>
  In the example analysed at the workspace root (\<^verbatim>\<open>path\<close> is \<^verbatim>\<open>.\<close>), \<^verbatim>\<open>lib\<close> is neither
  absolute nor in the listing of \<^verbatim>\<open>/ws\<close>, and \<^verbatim>\<open>resolveRelativeToWorkspace\<close> returns it
  as it is: \<^verbatim>\<open>resolveAbsolute\<close> calls itself on the same path again, and never returns.
\<close>

lemma example_root_retry:
  assumes "resolveAbsolute h fl p = Some z"
  shows "h = example_host 0 \<longrightarrow> fl = example_flags\<lparr> path := ''.'' \<rparr> \<longrightarrow> p = ''lib'' \<longrightarrow> False"
proof -
  have a: "\<not> isAbsolute ''lib''" by (simp add: isAbsolute_def sep_def)
  have w: "isWorkspaceRelative (example_host 0) (example_flags\<lparr> path := ''.'' \<rparr>) ''lib'' = Inr False"
    by (simp add: workspace_defs fs_defs path_defs string_defs example_defs Let_def)
  have r: "resolveRelativeToWorkspace (example_host 0) (example_flags\<lparr> path := ''.'' \<rparr>) ''lib'' = Inr ''lib''"
    by (simp add: workspace_defs fs_defs path_defs string_defs example_defs Let_def)
  show ?thesis
    apply (rule resolveAbsolute.raw_induct
        [where P = "\<lambda>h fl p z. h = example_host 0 \<longrightarrow> fl = example_flags\<lparr> path := ''.'' \<rparr> \<longrightarrow> p = ''lib'' \<longrightarrow> False",
          OF _ assms])
    subgoal premises prems for ra h' fl' p' z'
    proof (intro impI)
      assume "h' = example_host 0" and "fl' = example_flags\<lparr> path := ''.'' \<rparr>" and "p' = ''lib''"
      with prems(2) a w r
      have "ra (example_host 0) (example_flags\<lparr> path := ''.'' \<rparr>) ''lib'' = Some z'" by simp
      with prems(1) show False by blast
    qed
    done
qed

lemma example_root_diverges:
  "resolveAbsolute (example_host 0) (example_flags\<lparr> path := ''.'' \<rparr>) ''lib'' = None"
  using example_root_retry
  by (cases "resolveAbsolute (example_host 0) (example_flags\<lparr> path := ''.'' \<rparr>) ''lib''") auto

section \<open>The claims\<close>

subsection \<open>Relative imports of files that do not exist\<close>




subsection \<open>The static mapping comes first\<close>

text \<open>
  Claim C2. Let \<open>k\<close> be the import specifier, made workspace-relative when it starts with a
  dot. If \<open>k\<close> is a key of the static label mapping with value \<open>v\<close>, then
  \<^verbatim>\<open>calculateTsDependencyLabel\<close> returns the label \<open>v\<close> parses to, and the state is the one it
  started with: no query was run and nothing was printed. No assumption is made on the
  files on disk.
\<close>

theorem static_mapping_first:
  assumes "(if startsWith imp ''.'' then resolveRelativeToWorkspace h fl imp else Inr imp) = Inr k"
    and "label_mapping fl k = Some v"
  shows "calculateTsDependencyLabel h fl st imp npmWorkspace = Some (Inr (Label_parseAbsolute v), st)"
  using assms by (simp add: calculateTsDependencyLabel_def tryResolveLabelFromStaticMapping_def)

text \<open>In the example \<^verbatim>\<open>./mapped\<close> is mapped, and no file \<^verbatim>\<open>mapped.ts\<close> exists.\<close>

theorem static_mapping_first_witness:
  "calculateTsDependencyLabel (example_host 0) example_flags example_state ''./mapped'' ''npm'' =
     Some (Inr \<lparr> repository = [], package = ''lib/mapped'', target = ''target'' \<rparr>, example_state) \<and>
   example_fs ''/ws/src/foo/mapped.ts'' = None"
proof -
  have 1: "(if startsWith ''./mapped'' ''.''
            then resolveRelativeToWorkspace (example_host 0) example_flags ''./mapped''
            else Inr ''./mapped'') = Inr ''src/foo/mapped''"
    by (simp add: workspace_defs fs_defs path_defs string_defs example_defs Let_def)
  have 2: "label_mapping example_flags ''src/foo/mapped'' = Some ''//lib/mapped:target''"
    by (simp add: example_flags_def)
  show ?thesis
    using static_mapping_first [OF 1 2, of example_state "''npm''"]
    by (simp add: Label_parseAbsolute_def lastSegment_def string_defs example_fs_def sep_def)
qed

subsection \<open>Imports of the rule's own files\<close>

text \<open>
  Claim C3. If the workspace-relative form of a specifier, with \<^verbatim>\<open>.ts\<close> appended when it
  does not end so, is one of the rule's source files, then
  \<^verbatim>\<open>resolveLabelFromModuleSpecifier\<close> returns \<^verbatim>\<open>undefined\<close> with the state untouched (the
  cascade is not entered), and the import or re-export contributes nothing: taking the
  declaration out of the file gives the same dependency set and the same state, whatever
  the cascade would have returned for it.
\<close>

theorem self_import_skipped:
  assumes "moduleSpecifierText m = Some t" and "resolveRelativeToWorkspace h fl t = Inr w"
    and "withTs w \<in> set tsFiles"
  shows "resolveLabelFromModuleSpecifier h fl st m tsFiles npmWorkspace = Some (Inr None, st) \<and>
     processTsFileAst h fl st \<lparr> importDeclarations = imps1 @ m # imps2, exportDeclarations = exps \<rparr>
         tsFiles npmWorkspace labels =
       processTsFileAst h fl st \<lparr> importDeclarations = imps1 @ imps2, exportDeclarations = exps \<rparr>
         tsFiles npmWorkspace labels \<and>
     processTsFileAst h fl st \<lparr> importDeclarations = imps, exportDeclarations = exps1 @ m # exps2 \<rparr>
         tsFiles npmWorkspace labels =
       processTsFileAst h fl st \<lparr> importDeclarations = imps, exportDeclarations = exps1 @ exps2 \<rparr>
         tsFiles npmWorkspace labels"
proof -
  have skip: "\<And>s. resolveLabelFromModuleSpecifier h fl s m tsFiles npmWorkspace = Some (Inr None, s)"
    using assms by (rule self_import_early_return)
  have 1: "resolveLabelFromModuleSpecifier h fl st m tsFiles npmWorkspace = Some (Inr None, st)"
    using skip .
  have 2: "processTsFileAst h fl st \<lparr> importDeclarations = imps1 @ m # imps2, exportDeclarations = exps \<rparr>
         tsFiles npmWorkspace labels =
       processTsFileAst h fl st \<lparr> importDeclarations = imps1 @ imps2, exportDeclarations = exps \<rparr>
         tsFiles npmWorkspace labels"
    by (simp add: processTsFileAst_def resolveAll_skip [OF skip] addLabels_skip
        split: option.splits sum.splits prod.splits)
  have 3: "processTsFileAst h fl st \<lparr> importDeclarations = imps, exportDeclarations = exps1 @ m # exps2 \<rparr>
         tsFiles npmWorkspace labels =
       processTsFileAst h fl st \<lparr> importDeclarations = imps, exportDeclarations = exps1 @ exps2 \<rparr>
         tsFiles npmWorkspace labels"
    by (simp add: processTsFileAst_def resolveAll_skip [OF skip] addLabels_skip
        split: option.splits sum.splits prod.splits)
  from 1 2 3 show ?thesis by blast
qed

text \<open>In the example the import of \<^verbatim>\<open>./b\<close> is skipped, though the cascade has a label for
  it.\<close>

theorem self_import_skipped_witness:
  "resolveLabelFromModuleSpecifier (example_host 0) example_flags example_state (quoted ''./b'')
       [''src/foo/a.ts'', ''src/foo/b.ts''] ''npm'' = Some (Inr None, example_state) \<and>
   map_option fst (calculateTsDependencyLabel (example_host 0) example_flags example_state ''./b'' ''npm'') =
     Some (Inr \<lparr> repository = [], package = ''src/foo'', target = ''b'' \<rparr>)"
proof -
  have 1: "moduleSpecifierText (quoted ''./b'') = Some ''./b''"
    by (simp add: moduleSpecifierText_def quoted_def)
  have 2: "resolveRelativeToWorkspace (example_host 0) example_flags ''./b'' = Inr ''src/foo/b''"
    by (simp add: workspace_defs fs_defs path_defs string_defs example_defs Let_def)
  have 3: "withTs ''src/foo/b'' \<in> set [''src/foo/a.ts'', ''src/foo/b.ts'']"
    by (simp add: withTs_def endsWith_def)
  have 4: "map_option fst (calculateTsDependencyLabel (example_host 0) example_flags example_state ''./b'' ''npm'') =
     Some (Inr \<lparr> repository = [], package = ''src/foo'', target = ''b'' \<rparr>)"
    by code_simp
  show ?thesis
    using self_import_skipped [OF 1 2 3, of example_state "''npm''"] 4 by blast
qed

subsection \<open>External packages\<close>

text \<open>
  Claim C4. For a specifier that does not start with a dot, has no static mapping and
  whose first segment is not in the workspace listing, the label is parsed from
  \<^verbatim>\<open>@\<close>, the configured repository name, \<^verbatim>\<open>//\<close> and \<^verbatim>\<open>posix.join\<close> of the first two
  segments of the specifier when it starts with \<^verbatim>\<open>@\<close>, of the first segment otherwise;
  no target is appended and the state is unchanged. \<^verbatim>\<open>posix.join\<close> of ordinary segments
  is these segments with a slash between them.
\<close>

theorem external_package_label:
  assumes "label_mapping fl imp = None" and "isWorkspaceRelative h fl imp = Inr False"
    and "\<not> startsWith imp ''.''"
    and "segs = take (if startsWith imp ''@'' then 2 else 1) (split_str sep imp)"
  shows "calculateTsDependencyLabel h fl st imp npmWorkspace =
           Some (Inr (Label_parseAbsolute (''@'' @ npmWorkspace @ ''//'' @ join segs)), st) \<and>
         (list_all plainSegment segs \<longrightarrow> join segs = join_str [sep] segs)"
proof -
  have "segs \<noteq> []"
    using assms(4) split_str_nonempty [of sep imp] by (cases "split_str sep imp") auto
  moreover have "\<forall>s\<in>set segs. sep \<notin> set s"
    using assms(4) split_str_segments [of _ sep imp] by (auto dest: in_set_takeD)
  ultimately have "list_all plainSegment segs \<longrightarrow> join segs = join_str [sep] segs"
    using join_plain by blast
  moreover have "calculateTsDependencyLabel h fl st imp npmWorkspace =
           Some (Inr (Label_parseAbsolute (''@'' @ npmWorkspace @ ''//'' @ join segs)), st)"
    using assms by (simp add: calculateTsDependencyLabel_def tryResolveLabelFromStaticMapping_def Let_def)
  ultimately show ?thesis by blast
qed

text \<open>The scenario of the specification: \<^verbatim>\<open>@scope/pkg/deep/path\<close> gives
  \<^verbatim>\<open>@npm//@scope/pkg\<close>.\<close>

theorem external_package_label_witness:
  "calculateTsDependencyLabel (example_host 0) example_flags example_state ''@scope/pkg/deep/path'' ''npm'' =
     Some (Inr (Label_parseAbsolute ''@npm//@scope/pkg''), example_state) \<and>
   Label_toString (Label_parseAbsolute ''@npm//@scope/pkg'') = ''@npm//@scope/pkg''"
proof -
  have 1: "label_mapping example_flags ''@scope/pkg/deep/path'' = None"
    by (simp add: example_flags_def)
  have 2: "isWorkspaceRelative (example_host 0) example_flags ''@scope/pkg/deep/path'' = Inr False"
    by (simp add: workspace_defs fs_defs path_defs string_defs example_defs Let_def)
  have 3: "\<not> startsWith ''@scope/pkg/deep/path'' ''.''" by (simp add: startsWith_def)
  have 4: "[''@scope'', ''pkg''] =
     take (if startsWith ''@scope/pkg/deep/path'' ''@'' then 2 else 1) (split_str sep ''@scope/pkg/deep/path'')"
    by (simp add: startsWith_def sep_def)
  have 5: "list_all plainSegment [''@scope'', ''pkg'']" by (simp add: plainSegment_def)
  have 6: "Label_toString (Label_parseAbsolute ''@npm//@scope/pkg'') = ''@npm//@scope/pkg''"
    by code_simp
  show ?thesis
    using external_package_label [OF 1 2 3 4, of example_state "''npm''"] 5 6
    by (simp add: sep_def)
qed

subsection \<open>\<^verbatim>\<open>resolveAbsolute\<close>\<close>

text \<open>
  Claim C5, as the code has it. \<^verbatim>\<open>resolveAbsolute\<close> returns an absolute path unchanged and
  a workspace-relative path joined onto \<^verbatim>\<open>base_dir\<close>. Any other path is handed to
  \<^verbatim>\<open>resolveRelativeToWorkspace\<close> and the call is made again on the result \<open>q\<close>: it returns
  after this one hop when \<open>q\<close> is absolute or workspace-relative. An exception of the file
  system, in the listing or in the hop, ends the call at once. There is no other guard
  and no count of the hops.
\<close>

theorem resolveAbsolute_cases:
  "(isAbsolute p \<longrightarrow> resolveAbsolute h fl p = Some (Inr p)) \<and>
   (\<not> isAbsolute p \<longrightarrow> isWorkspaceRelative h fl p = Inr True \<longrightarrow>
      resolveAbsolute h fl p = Some (Inr (join [base_dir fl, p]))) \<and>
   (\<not> isAbsolute p \<longrightarrow> isWorkspaceRelative h fl p = Inr False \<longrightarrow>
      resolveRelativeToWorkspace h fl p = Inr q \<longrightarrow>
      resolveAbsolute h fl p = resolveAbsolute h fl q \<and>
      (isAbsolute q \<longrightarrow> resolveAbsolute h fl p = Some (Inr q)) \<and>
      (\<not> isAbsolute q \<longrightarrow> isWorkspaceRelative h fl q = Inr True \<longrightarrow>
         resolveAbsolute h fl p = Some (Inr (join [base_dir fl, q])))) \<and>
   (\<not> isAbsolute p \<longrightarrow> isWorkspaceRelative h fl p = Inl e \<longrightarrow>
      resolveAbsolute h fl p = Some (Inl e)) \<and>
   (\<not> isAbsolute p \<longrightarrow> isWorkspaceRelative h fl p = Inr False \<longrightarrow>
      resolveRelativeToWorkspace h fl p = Inl e \<longrightarrow> resolveAbsolute h fl p = Some (Inl e))"
proof -
  have abs: "resolveAbsolute h fl r = Some (Inr r)" if "isAbsolute r" for r
    using that by (subst resolveAbsolute.simps) simp
  have rel: "resolveAbsolute h fl r = Some (Inr (join [base_dir fl, r]))"
    if "\<not> isAbsolute r" and "isWorkspaceRelative h fl r = Inr True" for r
    using that by (subst resolveAbsolute.simps) simp
  have hop: "resolveAbsolute h fl p = resolveAbsolute h fl q"
    if "\<not> isAbsolute p" and "isWorkspaceRelative h fl p = Inr False"
      and "resolveRelativeToWorkspace h fl p = Inr q"
    using that by (subst resolveAbsolute.simps) simp
  have err1: "resolveAbsolute h fl p = Some (Inl e)"
    if "\<not> isAbsolute p" and "isWorkspaceRelative h fl p = Inl e"
    using that by (subst resolveAbsolute.simps) simp
  have err2: "resolveAbsolute h fl p = Some (Inl e)"
    if "\<not> isAbsolute p" and "isWorkspaceRelative h fl p = Inr False"
      and "resolveRelativeToWorkspace h fl p = Inl e"
    using that by (subst resolveAbsolute.simps) simp
  show ?thesis
    using abs [of p] abs [of q] rel [of p] rel [of q] hop err1 err2 by auto
qed

text \<open>In the example: an absolute path, a workspace-relative one, a file name that needs
  the hop, and a \<^verbatim>\<open>base_dir\<close> that does not exist.\<close>

theorem resolveAbsolute_cases_witness:
  "resolveAbsolute (example_host 0) example_flags ''/etc/passwd'' = Some (Inr ''/etc/passwd'') \<and>
   resolveAbsolute (example_host 0) example_flags ''src/foo/a.ts'' = Some (Inr ''/ws/src/foo/a.ts'') \<and>
   resolveAbsolute (example_host 0) example_flags ''a.ts'' = Some (Inr ''/ws/src/foo/a.ts'') \<and>
   resolveAbsolute (example_host 0) (example_flags\<lparr> base_dir := ''/nowhere'' \<rparr>) ''a.ts'' =
     Some (Inl (ENOENT ''/nowhere''))"
proof -
  let ?h = "example_host 0"
  have 1: "isAbsolute ''/etc/passwd''" by (simp add: isAbsolute_def sep_def)
  have 2: "\<not> isAbsolute ''src/foo/a.ts''" "\<not> isAbsolute ''a.ts''"
    by (simp_all add: isAbsolute_def sep_def)
  have 3: "isWorkspaceRelative ?h example_flags ''src/foo/a.ts'' = Inr True"
    by (simp add: workspace_defs fs_defs path_defs string_defs example_defs Let_def)
  have 4: "isWorkspaceRelative ?h example_flags ''a.ts'' = Inr False"
    by (simp add: workspace_defs fs_defs path_defs string_defs example_defs Let_def)
  have 5: "resolveRelativeToWorkspace ?h example_flags ''a.ts'' = Inr ''src/foo/a.ts''"
    by (simp add: workspace_defs fs_defs path_defs string_defs example_defs Let_def)
  have 6: "isWorkspaceRelative ?h (example_flags\<lparr> base_dir := ''/nowhere'' \<rparr>) ''a.ts'' =
             Inl (ENOENT ''/nowhere'')"
    by (simp add: workspace_defs fs_defs path_defs string_defs example_defs Let_def)
  have j: "join [base_dir example_flags, ''src/foo/a.ts''] = ''/ws/src/foo/a.ts''"
    by (simp add: path_defs example_flags_def Let_def)
  show ?thesis
    using resolveAbsolute_cases [of "''/etc/passwd''" ?h example_flags]
      resolveAbsolute_cases [of "''src/foo/a.ts''" ?h example_flags]
      resolveAbsolute_cases [of "''a.ts''" ?h example_flags "''src/foo/a.ts''"]
      resolveAbsolute_cases [of "''a.ts''" ?h "example_flags\<lparr> base_dir := ''/nowhere'' \<rparr>" _ "ENOENT ''/nowhere''"]
      1 2 3 4 5 6 j
    by simp
qed

text \<open>
  The recursion has no bound. Analysed at the workspace root, the example never returns
  on \<^verbatim>\<open>lib\<close>; analysed at \<^verbatim>\<open>src/foo\<close>, it returns on \<^verbatim>\<open>../../lib\<close> after two hops
  (\<^verbatim>\<open>lib\<close>, then \<^verbatim>\<open>src/foo/lib\<close>), not one.
\<close>

theorem resolveAbsolute_unbounded:
  "resolveAbsolute (example_host 0) (example_flags\<lparr> path := ''.'' \<rparr>) ''lib'' = None \<and>
   resolveRelativeToWorkspace (example_host 0) example_flags ''../../lib'' = Inr ''lib'' \<and>
   isWorkspaceRelative (example_host 0) example_flags ''lib'' = Inr False \<and>
   resolveAbsolute (example_host 0) example_flags ''../../lib'' = Some (Inr ''/ws/src/foo/lib'')"
proof -
  have "resolveAbsolute (example_host 0) example_flags ''../../lib'' = Some (Inr ''/ws/src/foo/lib'')"
    by code_simp
  moreover have "resolveRelativeToWorkspace (example_host 0) example_flags ''../../lib'' = Inr ''lib''"
    by (simp add: workspace_defs fs_defs path_defs string_defs example_defs Let_def)
  moreover have "isWorkspaceRelative (example_host 0) example_flags ''lib'' = Inr False"
    by (simp add: workspace_defs fs_defs path_defs string_defs example_defs Let_def)
  ultimately show ?thesis using example_root_diverges by blast
qed

subsection \<open>The exit code of the editor\<close>

text \<open>
  Claim C6, as the code has it. Once the command file is written, the build file prepared
  and the editor has run with exit code \<open>code\<close>, leaving the file system \<open>f3\<close>:
  \<^verbatim>\<open>invokeBuildozer\<close> returns without an exception; with exit code 0 or 3 and
  \<^verbatim>\<open>clean_commands_file\<close> set the command file is removed, and with any other exit code the
  file system is left as the editor left it, the command file included. Nothing is added
  to the console after the editor's run: the trace ends with the invocation, whatever the
  exit code was.
\<close>

theorem invokeBuildozer_exit_code:
  assumes "buildozer_commands_file fl \<noteq> []" and "commands \<noteq> []" and "generate_build_files fl"
    and "writeFileSync (fs h) (join [base_dir fl, buildozer_commands_file fl])
           (join_str [CHR 0x0A] commands) = Inr f1"
    and "prepareBuildFile (h\<lparr> fs := f1 \<rparr>) fl = (None, f2)"
    and "exec_editor h (editorCommand fl (join [base_dir fl, buildozer_commands_file fl]))
           (base_dir fl) f2 = (code, f3)"
  shows "invokeBuildozer h fl commands st =
     (None,
      (if (code = 0 \<or> code = 3) \<and> clean_commands_file fl
       then shell_rm f3 (join [base_dir fl, buildozer_commands_file fl]) else f3),
      st\<lparr> trace := trace st @ consoleOutput fl commands @
            [Exec (editorCommand fl (join [base_dir fl, buildozer_commands_file fl])) (base_dir fl)] \<rparr>)"
  using assms by (simp add: invokeBuildozer_def Let_def)

text \<open>In the example, with exit code 3 and the clean-up set, the command file is gone.\<close>

theorem invokeBuildozer_exit_code_witness:
  "(case invokeBuildozer (example_host 3) example_flags [''new ts_library foo|//src/foo:__pkg__'']
           example_state of
      (e, f, st) \<Rightarrow>
        e = None \<and> f ''/ws/commands.txt'' = None \<and>
        trace st = [Exec ''buildozer -shorten_labels -eol-comments=true -k -f /ws/commands.txt'' ''/ws''])"
proof -
  let ?h = "example_host 3"
  let ?f1 = "example_fs(''/ws'' \<mapsto> Directory [''BUILD'', ''WORKSPACE'', ''src'', ''commands.txt''],
                        ''/ws/commands.txt'' \<mapsto> File ''new ts_library foo|//src/foo:__pkg__'')"
  let ?f2 = "?f1(''/ws/src/foo'' \<mapsto> Directory [''a.spec.ts'', ''a.ts'', ''b.ts'', ''BUILD''],
                 ''/ws/src/foo/BUILD'' \<mapsto> File [])"
  have 1: "buildozer_commands_file example_flags \<noteq> []"
    and 2: "[''new ts_library foo|//src/foo:__pkg__''] \<noteq> []"
    and 3: "generate_build_files example_flags"
    by (simp_all add: example_flags_def)
  have 4: "writeFileSync (fs ?h) (join [base_dir example_flags, buildozer_commands_file example_flags])
             (join_str [CHR 0x0A] [''new ts_library foo|//src/foo:__pkg__'']) = Inr ?f1"
    by (simp add: fs_defs path_defs string_defs example_defs Let_def)
  have 5: "prepareBuildFile (?h\<lparr> fs := ?f1 \<rparr>) example_flags = (None, ?f2)"
    by (simp add: buildozer_defs workspace_defs fs_defs path_defs string_defs example_defs Let_def)
  have 6: "exec_editor ?h (editorCommand example_flags
             (join [base_dir example_flags, buildozer_commands_file example_flags]))
             (base_dir example_flags) ?f2 = (3, ?f2)"
    by (simp add: example_host_def)
  show ?thesis
    using invokeBuildozer_exit_code [OF 1 2 3 4 5 6, of example_state]
    by (simp add: buildozer_defs fs_defs path_defs string_defs example_defs Let_def)
qed

text \<open>
  With exit code 1 the run ends without an exception, the command file is still there,
  and the trace holds the invocation of the editor and no line about its failure.
\<close>

theorem invokeBuildozer_failure_not_reported:
  "(case invokeBuildozer (example_host 1) example_flags [''new ts_library foo|//src/foo:__pkg__'']
           example_state of
      (e, f, st) \<Rightarrow>
        e = None \<and> f ''/ws/commands.txt'' = Some (File ''new ts_library foo|//src/foo:__pkg__'') \<and>
        trace st = [Exec ''buildozer -shorten_labels -eol-comments=true -k -f /ws/commands.txt'' ''/ws''])"
  by (simp add: buildozer_defs workspace_defs fs_defs path_defs string_defs example_defs Let_def)

subsection \<open>No commands\<close>

text \<open>
  Claim C7, as the code has it. With no accumulated command \<^verbatim>\<open>invokeBuildozer\<close> returns
  at once, the file system untouched and no subprocess started; it prints one warning
  when a command file is configured, and nothing when \<^verbatim>\<open>buildozer_commands_file\<close> is
  empty, the case its first guard returns on.
\<close>

theorem invokeBuildozer_no_commands:
  "invokeBuildozer h fl [] st =
     (None, fs h,
      if buildozer_commands_file fl = [] then st
      else st\<lparr> trace := trace st @ [Warn ''No buildozer commands were generated''] \<rparr>)"
  by (simp add: invokeBuildozer_def)

text \<open>In the example with no command file configured, nothing is printed.\<close>

theorem invokeBuildozer_no_commands_silent:
  "invokeBuildozer (example_host 0) (example_flags\<lparr> buildozer_commands_file := [] \<rparr>) [] example_state
     = (None, example_fs, example_state) \<and> trace example_state = []"
  by (simp add: invokeBuildozer_def example_host_def example_flags_def example_state_def)

subsection \<open>The dependency set is a set\<close>



subsection \<open>The guard on the path argument\<close>



subsection \<open>Spec files\<close>



end
